theory Spec2Isabelle
  imports Complex_Main "HOL-Library.Sublist" "HOL-Library.AList"
begin

section \<open>JavaScript values used by the middleware\<close>

text \<open>
  Strings are lists of code units. The middleware only concatenates strings, compares
  them with ASCII literals and looks for ASCII substrings, so \<^typ>\<open>string\<close> is used.

  A JavaScript number is an IEEE double: not-a-number, an infinity or a finite value.
  Every finite double is a rational and doubles compare as their values do.
\<close>

datatype jsnum = NaN | Fin rat | PosInfinity | NegInfinity

text \<open>The primitive values an \<open>err.statusCode\<close> property can hold.\<close>

datatype jsval = JUndefined | JNull | JBool bool | JNumber jsnum | JString string

text \<open>
  \<open>ToNumber\<close> of ECMAScript. The conversion of a string (\<open>StringToNumber\<close>) belongs to
  the language, not to this repository, and is a parameter.
\<close>

fun ToNumber :: "(string \<Rightarrow> jsnum) \<Rightarrow> jsval \<Rightarrow> jsnum" where
  "ToNumber s2n JUndefined = NaN"
| "ToNumber s2n JNull = Fin 0"
| "ToNumber s2n (JBool b) = Fin (if b then 1 else 0)"
| "ToNumber s2n (JNumber n) = n"
| "ToNumber s2n (JString s) = s2n s"

text \<open>
  \<open>x < y\<close> on numbers. The comparison is undefined when an operand is \<open>NaN\<close>, and
  the operator \<open><\<close> then yields \<open>false\<close>.
\<close>

fun num_lt :: "jsnum \<Rightarrow> jsnum \<Rightarrow> bool" where
  "num_lt NaN y = False"
| "num_lt x NaN = False"
| "num_lt (Fin a) (Fin b) = (a < b)"
| "num_lt (Fin a) PosInfinity = True"
| "num_lt (Fin a) NegInfinity = False"
| "num_lt PosInfinity y = False"
| "num_lt NegInfinity NegInfinity = False"
| "num_lt NegInfinity y = True"

text \<open>\<open>v < n\<close> for a primitive \<open>v\<close> and a number \<open>n\<close>: both sides are compared as numbers.\<close>

definition js_lt :: "(string \<Rightarrow> jsnum) \<Rightarrow> jsval \<Rightarrow> jsnum \<Rightarrow> bool" where
  "js_lt s2n v n = num_lt (ToNumber s2n v) n"

text \<open>
  \<open>s.indexOf(pat)\<close>: the position of the first occurrence of \<open>pat\<close> in \<open>s\<close>, or \<open>-1\<close>.
\<close>

fun indexOf_from :: "nat \<Rightarrow> string \<Rightarrow> string \<Rightarrow> int" where
  "indexOf_from k [] pat = (if pat = [] then int k else -1)"
| "indexOf_from k (c # s) pat =
     (if prefix pat (c # s) then int k else indexOf_from (Suc k) s pat)"

definition indexOf :: "string \<Rightarrow> string \<Rightarrow> int" where
  "indexOf s pat = indexOf_from 0 s pat"

section \<open>Path resolver cache\<close>

text \<open>
  \<open>pathCache\<close> is a JavaScript \<open>Map\<close> from strings to strings. A \<open>Map\<close> iterates its
  entries in insertion order, so it is a list of entries with distinct keys, oldest first.
\<close>

type_synonym cache = "(string \<times> string) list"

definition Map_get :: "cache \<Rightarrow> string \<Rightarrow> string option" where
  "Map_get m k = map_of m k"

definition Map_has :: "cache \<Rightarrow> string \<Rightarrow> bool" where
  "Map_has m k = (Map_get m k \<noteq> None)"

definition Map_delete :: "cache \<Rightarrow> string \<Rightarrow> cache" where
  "Map_delete m k = filter (\<lambda>e. fst e \<noteq> k) m"

text \<open>\<open>set\<close> on a present key keeps the position of the entry; a new key goes last.\<close>

definition Map_set :: "cache \<Rightarrow> string \<Rightarrow> string \<Rightarrow> cache" where
  "Map_set m k v =
     (if Map_has m k then map (\<lambda>e. if fst e = k then (k, v) else e) m else m @ [(k, v)])"

definition Map_size :: "cache \<Rightarrow> nat" where
  "Map_size m = length m"

text \<open>\<open>m.keys().next().value\<close>: the oldest key, \<open>undefined\<close> (here \<open>None\<close>) on an empty map.\<close>

definition Map_first_key :: "cache \<Rightarrow> string option" where
  "Map_first_key m = (case m of [] \<Rightarrow> None | e # _ \<Rightarrow> Some (fst e))"

definition MAX_CACHE_SIZE :: nat where
  "MAX_CACHE_SIZE = 1000"

text \<open>
  \<open>getCachedPath(pathname, root)\<close> reads and writes the module-level \<open>pathCache\<close>; the
  model takes the cache and returns the result with the new cache. Deleting the key
  \<open>undefined\<close> from a map of strings removes nothing. Where \<open>has\<close> holds, \<open>get\<close> returns
  the stored string, so the case \<open>None\<close> under \<open>Map_has\<close> is never taken.
\<close>

definition getCachedPath :: "string \<Rightarrow> string \<Rightarrow> cache \<Rightarrow> string \<times> cache" where
  "getCachedPath pathname root' pathCache =
     (let cacheKey = root' @ ''::'' @ pathname in
      if Map_has pathCache cacheKey then
        (case Map_get pathCache cacheKey of
           Some current \<Rightarrow> (current, Map_set (Map_delete pathCache cacheKey) cacheKey current)
         | None \<Rightarrow> (pathname, pathCache))
      else
        (let pathCache1 =
               (if Map_size pathCache \<ge> MAX_CACHE_SIZE then
                  (case Map_first_key pathCache of
                     Some firstKey \<Rightarrow> Map_delete pathCache firstKey
                   | None \<Rightarrow> pathCache)
                else pathCache)
         in (pathname, Map_set pathCache1 cacheKey pathname)))"

section \<open>Requests, responses and the collaborators of the middleware\<close>

text \<open>
  A parsed URL (\<open>parseurl\<close>): the middleware reads \<open>pathname\<close> and overwrites \<open>path\<close> and
  \<open>pathname\<close>; \<open>search\<close> stands for the components it leaves alone.
\<close>

record url =
  url_pathname :: string
  url_path :: "string option"
  url_search :: "string option"

text \<open>
  What the middleware reads of a request: \<open>req.method\<close>, \<open>parseUrl(req)\<close>,
  \<open>parseUrl.original(req)\<close> and \<open>req.headers['accept-encoding']\<close> (\<open>None\<close> when absent).
\<close>

record request =
  req_method :: string
  req_url :: url
  req_originalUrl :: url
  req_accept_encoding :: "string option"

text \<open>A header value is a string or a number (\<open>Content-Length\<close> is set from numbers).\<close>

datatype hval = HStr string | HNum nat

text \<open>
  The response object. \<open>res_headers\<close> is keyed by the lower-cased header name, as Node
  stores it; \<open>res_body\<close> is the data written so far.
\<close>

record response =
  res_statusCode :: nat
  res_headers :: "(string \<times> hval) list"
  res_body :: string
  res_ended :: bool

definition toLowerCase_char :: "char \<Rightarrow> char" where
  "toLowerCase_char c =
     (case map_of (zip ''ABCDEFGHIJKLMNOPQRSTUVWXYZ'' ''abcdefghijklmnopqrstuvwxyz'') c of
        Some d \<Rightarrow> d
      | None \<Rightarrow> c)"

definition toLowerCase :: "string \<Rightarrow> string" where
  "toLowerCase s = map toLowerCase_char s"

definition setHeader :: "string \<Rightarrow> hval \<Rightarrow> response \<Rightarrow> response" where
  "setHeader name v r = r\<lparr>res_headers := AList.update (toLowerCase name) v (res_headers r)\<rparr>"

definition getHeader :: "response \<Rightarrow> string \<Rightarrow> hval option" where
  "getHeader r name = map_of (res_headers r) (toLowerCase name)"

text \<open>\<open>res.end(data)\<close>; \<open>res.end()\<close> is \<open>end_response None\<close>.\<close>

definition end_response :: "string option \<Rightarrow> response \<Rightarrow> response" where
  "end_response d r =
     r\<lparr>res_body := res_body r @ (case d of None \<Rightarrow> [] | Some doc \<Rightarrow> doc), res_ended := True\<rparr>"

record stat =
  stat_size :: nat

text \<open>The error object an \<open>error\<close> notification carries.\<close>

record httpError =
  err_statusCode :: jsval
  err_message :: string

text \<open>
  The configuration fixed by \<open>serveStatic(root, options)\<close>: \<open>opts_root\<close> is the resolved
  root, \<open>setHeaders\<close> the optional callback, which acts on the response.
\<close>

record config =
  fallthrough :: bool
  redirect :: bool
  setHeaders :: "(response \<Rightarrow> string \<Rightarrow> stat \<Rightarrow> response) option"
  opts_root :: string
  preferPrecompressed :: bool

text \<open>
  Functions of Node and of the packages \<open>send\<close>, \<open>encodeurl\<close>, \<open>escape-html\<close> and \<open>url\<close>
  that the middleware calls. They are not part of this repository and are parameters.
  \<open>mime_lookup\<close> is \<open>send.mime.lookup\<close>: \<open>None\<close> when the call throws or returns no string.
\<close>

record env =
  existsSync :: "string \<Rightarrow> bool"
  path_join :: "string \<Rightarrow> string \<Rightarrow> string"
  mime_lookup :: "string \<Rightarrow> string option"
  encodeUrl :: "string \<Rightarrow> string"
  escapeHtml :: "string \<Rightarrow> string"
  url_format :: "url \<Rightarrow> string"
  byteLength :: "string \<Rightarrow> nat"
  StringToNumber :: "string \<Rightarrow> jsnum"

text \<open>
  What a request does besides writing the response, in order: calls of \<open>next\<close> (with or
  without an error), calls of the engine's \<open>error(status)\<close>, and \<open>stream.pipe(res)\<close>.
\<close>

datatype call = Next "httpError option" | StreamError nat | Pipe

record reqstate =
  res :: response
  forwardError :: bool
  calls :: "call list"

text \<open>
  The stream made by \<open>send(req, path, opts)\<close> with the variables the listeners close over.
\<close>

record sendStream =
  send_path :: string
  precompressed :: "string option"
  encoding :: "string option"

text \<open>
  The engine's stream as a directory listener sees it through \<open>this\<close>: the request and the
  answer of \<open>hasTrailingSlash()\<close>, the engine's query of the original URL's shape.
\<close>

record this_stream =
  this_req :: request
  hasTrailingSlash :: bool

datatype event =
    EvDirectory this_stream
  | EvHeaders string stat
  | EvFile
  | EvError httpError

section \<open>Precompression negotiation\<close>

text \<open>
  The block of the middleware that runs when \<open>preferPrecompressed\<close> is set. It assigns
  \<open>precompressed\<close> and \<open>encoding\<close>, both \<open>null\<close> before.
\<close>

definition accept_header :: "string option \<Rightarrow> string" where
  "accept_header h = (case h of None \<Rightarrow> [] | Some v \<Rightarrow> v)"

definition acceptBr :: "string \<Rightarrow> bool" where
  "acceptBr ae = (indexOf ae ''br'' \<noteq> - 1)"

definition acceptGzip :: "string \<Rightarrow> bool" where
  "acceptGzip ae = (indexOf ae ''gzip'' \<noteq> - 1)"

definition candidate :: "string \<Rightarrow> string" where
  "candidate cachedPath =
     (if cachedPath = [] \<or> cachedPath = ''/'' then ''/index.html'' else cachedPath)"

definition negotiate ::
  "env \<Rightarrow> string \<Rightarrow> string option \<Rightarrow> string \<Rightarrow> string option \<times> string option" where
  "negotiate e root' accept_encoding cachedPath =
     (let ae = accept_header accept_encoding;
          abs = path_join e root' (candidate cachedPath)
      in if acceptBr ae \<and> existsSync e (abs @ ''.br'')
         then (Some (candidate cachedPath @ ''.br''), Some ''br'')
         else if acceptGzip ae \<and> existsSync e (abs @ ''.gz'')
         then (Some (candidate cachedPath @ ''.gz''), Some ''gzip'')
         else (None, None))"

section \<open>Directory listeners\<close>

text \<open>The loop of \<open>collapseLeadingSlashes\<close>: the index of the first code unit that is not a slash.\<close>

function collapse_loop :: "string \<Rightarrow> nat \<Rightarrow> nat" where
  "collapse_loop str i =
     (if i < length str then (if str ! i \<noteq> CHR ''/'' then i else collapse_loop str (Suc i)) else i)"
  by pat_completeness auto
termination
  by (relation "measure (\<lambda>(str, i). length str - i)") auto

declare collapse_loop.simps [simp del]

definition collapseLeadingSlashes :: "string \<Rightarrow> string" where
  "collapseLeadingSlashes str =
     (let i = collapse_loop str 0 in if i > 1 then ''/'' @ drop i str else str)"

definition createHtmlDocument :: "string \<Rightarrow> string \<Rightarrow> string" where
  \<open>createHtmlDocument title body =
     ''<!DOCTYPE html>\<newline>'' @
     ''<html lang="en">\<newline>'' @
     ''<head>\<newline>'' @
     ''<meta charset="utf-8">\<newline>'' @
     ''<title>'' @ title @ ''</title>\<newline>'' @
     ''</head>\<newline>'' @
     ''<body>\<newline>'' @
     ''<pre>'' @ body @ ''</pre>\<newline>'' @
     ''</body>\<newline>'' @
     ''</html>\<newline>''\<close>

definition createNotFoundDirectoryListener :: "this_stream \<Rightarrow> reqstate \<Rightarrow> reqstate" where
  "createNotFoundDirectoryListener this st = st\<lparr>calls := calls st @ [StreamError 404]\<rparr>"

text \<open>The header value \<open>default-src 'none'\<close>; \<open>CHR 0x27\<close> is the single quote.\<close>

definition csp_value :: string where
  "csp_value = ''default-src '' @ [CHR 0x27] @ ''none'' @ [CHR 0x27]"

definition createRedirectDirectoryListener :: "env \<Rightarrow> this_stream \<Rightarrow> reqstate \<Rightarrow> reqstate" where
  "createRedirectDirectoryListener e this st =
     (if hasTrailingSlash this then st\<lparr>calls := calls st @ [StreamError 404]\<rparr>
      else
        (let originalUrl = req_originalUrl (this_req this);
             originalUrl1 = originalUrl\<lparr>url_path := None\<rparr>;
             originalUrl2 = originalUrl1\<lparr>url_pathname :=
                              collapseLeadingSlashes (url_pathname originalUrl1 @ ''/'')\<rparr>;
             loc = encodeUrl e (url_format e originalUrl2);
             doc = createHtmlDocument ''Redirecting'' (''Redirecting to '' @ escapeHtml e loc);
             r1 = (res st)\<lparr>res_statusCode := 301\<rparr>;
             r2 = setHeader ''Content-Type'' (HStr ''text/html; charset=UTF-8'') r1;
             r3 = setHeader ''Content-Length'' (HNum (byteLength e doc)) r2;
             r4 = setHeader ''Content-Security-Policy'' (HStr csp_value) r3;
             r5 = setHeader ''X-Content-Type-Options'' (HStr ''nosniff'') r4;
             r6 = setHeader ''Location'' (HStr loc) r5
         in st\<lparr>res := end_response (Some doc) r6\<rparr>))"

section \<open>The middleware and its listeners\<close>

text \<open>\<open>s.substr(-1)\<close>: the last code unit of \<open>s\<close> as a string, empty for the empty string.\<close>

definition substr_last :: "string \<Rightarrow> string" where
  "substr_last s = (if s = [] then [] else [last s])"

text \<open>\<open>precompressed.replace(/\.(br|gz)$/, '')\<close>\<close>

definition replace_br_gz :: "string \<Rightarrow> string" where
  "replace_br_gz s = (if suffix ''.br'' s \<or> suffix ''.gz'' s then take (length s - 3) s else s)"

text \<open>A string variable is truthy when it is neither \<open>null\<close> (or \<open>undefined\<close>) nor empty.\<close>

definition truthy :: "string option \<Rightarrow> bool" where
  "truthy s = (case s of None \<Rightarrow> False | Some v \<Rightarrow> v \<noteq> [])"

definition onHeaders ::
  "env \<Rightarrow> config \<Rightarrow> sendStream \<Rightarrow> response \<Rightarrow> string \<Rightarrow> stat \<Rightarrow> response" where
  "onHeaders e cfg strm r filePath st =
     (let r1 = setHeader ''Vary'' (HStr ''Accept-Encoding'') r;
          r2 = (case (precompressed strm, encoding strm) of
                  (Some p, Some enc) \<Rightarrow>
                    if p \<noteq> [] \<and> enc \<noteq> [] then
                      (let originalPath = replace_br_gz p;
                           r1a = (case mime_lookup e originalPath of
                                    Some type \<Rightarrow>
                                      if type \<noteq> [] then setHeader ''Content-Type'' (HStr type) r1
                                      else r1
                                  | None \<Rightarrow> r1);
                           r1b = setHeader ''Content-Encoding'' (HStr enc) r1a
                       in setHeader ''Content-Length'' (HNum (stat_size st)) r1b)
                    else r1
                | _ \<Rightarrow> r1)
      in case setHeaders cfg of None \<Rightarrow> r2 | Some f \<Rightarrow> f r2 filePath st)"

definition onFile :: "reqstate \<Rightarrow> reqstate" where
  "onFile st = st\<lparr>forwardError := True\<rparr>"

definition error :: "env \<Rightarrow> httpError \<Rightarrow> reqstate \<Rightarrow> reqstate" where
  "error e err st =
     (if forwardError st \<or> \<not> js_lt (StringToNumber e) (err_statusCode err) (Fin 500)
      then st\<lparr>calls := calls st @ [Next (Some err)]\<rparr>
      else st\<lparr>calls := calls st @ [Next None]\<rparr>)"

definition onDirectory :: "env \<Rightarrow> config \<Rightarrow> this_stream \<Rightarrow> reqstate \<Rightarrow> reqstate" where
  "onDirectory e cfg =
     (if redirect cfg then createRedirectDirectoryListener e else createNotFoundDirectoryListener)"

text \<open>
  The middleware \<open>serveStatic(req, res, next)\<close> up to \<open>stream.pipe(res)\<close>: the state of the
  request, the cache, and the stream it made (\<open>None\<close> when the method gate stopped it).
\<close>

definition serveStatic ::
  "env \<Rightarrow> config \<Rightarrow> request \<Rightarrow> response \<Rightarrow> cache \<Rightarrow> reqstate \<times> cache \<times> sendStream option" where
  "serveStatic e cfg req res0 pathCache =
     (if req_method req \<noteq> ''GET'' \<and> req_method req \<noteq> ''HEAD'' then
        (if fallthrough cfg then
           (\<lparr>res = res0, forwardError = False, calls = [Next None]\<rparr>, pathCache, None)
         else
           (let r1 = res0\<lparr>res_statusCode := 405\<rparr>;
                r2 = setHeader ''Allow'' (HStr ''GET, HEAD'') r1;
                r3 = setHeader ''Content-Length'' (HStr ''0'') r2
            in (\<lparr>res = end_response None r3, forwardError = False, calls = []\<rparr>, pathCache, None)))
      else
        (let forwardError0 = \<not> fallthrough cfg;
             originalUrl = req_originalUrl req;
             path0 = url_pathname (req_url req);
             path1 = (if path0 = ''/'' \<and> substr_last (url_pathname originalUrl) \<noteq> ''/''
                      then [] else path0);
             (cachedPath, pathCache1) = getCachedPath path1 (opts_root cfg) pathCache;
             (precompressed0, encoding0) =
               (if preferPrecompressed cfg
                then negotiate e (opts_root cfg) (req_accept_encoding req) cachedPath
                else (None, None));
             strm = \<lparr>send_path = (case precompressed0 of
                                    Some p \<Rightarrow> if p \<noteq> [] then p else cachedPath
                                  | None \<Rightarrow> cachedPath),
                     precompressed = precompressed0, encoding = encoding0\<rparr>
         in (\<lparr>res = res0, forwardError = forwardError0, calls = [Pipe]\<rparr>, pathCache1, Some strm)))"

text \<open>
  A notification of the engine runs the listener subscribed to it. The \<open>file\<close> listener
  is subscribed only when \<open>fallthrough\<close> is set.
\<close>

fun emit :: "env \<Rightarrow> config \<Rightarrow> sendStream \<Rightarrow> event \<Rightarrow> reqstate \<Rightarrow> reqstate" where
  "emit e cfg strm (EvDirectory this) st = onDirectory e cfg this st"
| "emit e cfg strm (EvHeaders filePath sz) st =
     st\<lparr>res := onHeaders e cfg strm (res st) filePath sz\<rparr>"
| "emit e cfg strm EvFile st = (if fallthrough cfg then onFile st else st)"
| "emit e cfg strm (EvError err) st = error e err st"

definition emit_all :: "env \<Rightarrow> config \<Rightarrow> sendStream \<Rightarrow> event list \<Rightarrow> reqstate \<Rightarrow> reqstate" where
  "emit_all e cfg strm evs st = foldl (\<lambda>s ev. emit e cfg strm ev s) st evs"

section \<open>Sample inputs\<close>

text \<open>
  Concrete collaborators and inputs for evaluating the model: a file system given by the
  list of existing paths, joining by concatenation, formatting a URL as its pathname
  followed by its search string, and identity encodings.
\<close>

definition sample_env :: "string list \<Rightarrow> env" where
  "sample_env files =
     \<lparr>existsSync = (\<lambda>p. p \<in> set files),
      path_join = (\<lambda>a b. a @ b),
      mime_lookup = (\<lambda>p. if suffix ''.js'' p then Some ''application/javascript'' else None),
      encodeUrl = (\<lambda>s. s),
      escapeHtml = (\<lambda>s. s),
      url_format = (\<lambda>u. url_pathname u @ (case url_search u of None \<Rightarrow> [] | Some q \<Rightarrow> q)),
      byteLength = length,
      StringToNumber = (\<lambda>s. NaN)\<rparr>"

definition sample_config :: "bool \<Rightarrow> string \<Rightarrow> config" where
  "sample_config ft root' =
     \<lparr>fallthrough = ft, redirect = True, setHeaders = None, opts_root = root',
      preferPrecompressed = True\<rparr>"

definition sample_url :: "string \<Rightarrow> url" where
  "sample_url p = \<lparr>url_pathname = p, url_path = Some p, url_search = None\<rparr>"

definition sample_request :: "string \<Rightarrow> string \<Rightarrow> request" where
  "sample_request m p =
     \<lparr>req_method = m, req_url = sample_url p, req_originalUrl = sample_url p,
      req_accept_encoding = Some ''gzip, br''\<rparr>"

definition fresh_response :: response where
  "fresh_response = \<lparr>res_statusCode = 200, res_headers = [], res_body = [], res_ended = False\<rparr>"

definition sample_error :: "jsval \<Rightarrow> httpError" where
  "sample_error sc = \<lparr>err_statusCode = sc, err_message = ''error''\<rparr>"

section \<open>Basic facts about the model\<close>

lemma getHeader_setHeader:
  "getHeader (setHeader n v r) m =
     (if toLowerCase m = toLowerCase n then Some v else getHeader r m)"
  by (simp add: getHeader_def setHeader_def update_conv')

lemma setHeader_fields:
  "res_statusCode (setHeader n v r) = res_statusCode r"
  "res_body (setHeader n v r) = res_body r"
  "res_ended (setHeader n v r) = res_ended r"
  by (simp_all add: setHeader_def)

lemma end_response_fields:
  "getHeader (end_response d r) m = getHeader r m"
  "res_statusCode (end_response d r) = res_statusCode r"
  "res_ended (end_response d r)"
  "res_body (end_response None r) = res_body r"
  "res_body (end_response (Some doc) r) = res_body r @ doc"
  by (simp_all add: end_response_def getHeader_def)

lemma getHeader_statusCode_update:
  "getHeader (r\<lparr>res_statusCode := n\<rparr>) m = getHeader r m"
  by (simp add: getHeader_def)

lemma toLowerCase_names:
  "toLowerCase ''Allow'' = ''allow''"
  "toLowerCase ''Content-Length'' = ''content-length''"
  "toLowerCase ''Content-Type'' = ''content-type''"
  "toLowerCase ''Content-Encoding'' = ''content-encoding''"
  "toLowerCase ''Content-Security-Policy'' = ''content-security-policy''"
  "toLowerCase ''X-Content-Type-Options'' = ''x-content-type-options''"
  "toLowerCase ''Location'' = ''location''"
  "toLowerCase ''Vary'' = ''vary''"
  by (simp_all add: toLowerCase_def toLowerCase_char_def)



lemma getCachedPath_empty: "getCachedPath p r [] = (p, [(r @ ''::'' @ p, p)])"
  by (simp add: getCachedPath_def Map_has_def Map_get_def Map_size_def MAX_CACHE_SIZE_def
      Map_set_def)

subsection \<open>The sample inputs\<close>

lemma sample_config_simps:
  "fallthrough (sample_config ft r) = ft"
  "redirect (sample_config ft r) = True"
  "setHeaders (sample_config ft r) = None"
  "opts_root (sample_config ft r) = r"
  "preferPrecompressed (sample_config ft r) = True"
  by (simp_all add: sample_config_def)

lemma sample_request_simps:
  "req_method (sample_request m p) = m"
  "url_pathname (req_url (sample_request m p)) = p"
  "url_pathname (req_originalUrl (sample_request m p)) = p"
  "req_accept_encoding (sample_request m p) = Some ''gzip, br''"
  by (simp_all add: sample_request_def sample_url_def)

lemma sample_env_simps:
  "existsSync (sample_env fs) p = (p \<in> set fs)"
  "path_join (sample_env fs) a b = a @ b"
  "mime_lookup (sample_env fs) p =
     (if suffix ''.js'' p then Some ''application/javascript'' else None)"
  "encodeUrl (sample_env fs) s = s"
  "escapeHtml (sample_env fs) s = s"
  "url_format (sample_env fs) u =
     url_pathname u @ (case url_search u of None \<Rightarrow> [] | Some q \<Rightarrow> q)"
  "byteLength (sample_env fs) s = length s"
  "StringToNumber (sample_env fs) s = NaN"
  by (simp_all add: sample_env_def)


lemma negotiate_missing:
  "negotiate (sample_env []) ''/var/www'' (Some ''gzip, br'') ''/missing.txt'' = (None, None)"
  by (simp add: negotiate_def Let_def sample_env_simps)

lemma serveStatic_sample:
  "serveStatic (sample_env []) (sample_config ft ''/var/www'')
     (sample_request ''GET'' ''/missing.txt'') fresh_response [] =
   (\<lparr>res = fresh_response, forwardError = \<not> ft, calls = [Pipe]\<rparr>,
    [(''/var/www::/missing.txt'', ''/missing.txt'')],
    Some \<lparr>send_path = ''/missing.txt'', precompressed = None, encoding = None\<rparr>)"
  by (simp add: serveStatic_def sample_config_simps sample_request_simps substr_last_def
      getCachedPath_empty negotiate_missing Let_def)

section \<open>The method gate\<close>

text \<open>
  C8. A request whose method is neither \<open>GET\<close> nor \<open>HEAD\<close>: with \<open>fallthrough\<close> the
  middleware calls \<open>next()\<close> with no argument and leaves the response as it was; without
  \<open>fallthrough\<close> it ends the response with status 405, \<open>Allow: GET, HEAD\<close>,
  \<open>Content-Length: 0\<close> and no data written, and does not call \<open>next\<close>. In both cases no
  stream is made and the cache is not touched.
\<close>

theorem method_gate:
  assumes "req_method req \<noteq> ''GET''" and "req_method req \<noteq> ''HEAD''"
  shows "(fallthrough cfg \<longrightarrow>
            serveStatic e cfg req res0 pathCache =
              (\<lparr>res = res0, forwardError = False, calls = [Next None]\<rparr>, pathCache, None))
       \<and> (\<not> fallthrough cfg \<longrightarrow>
            (\<exists>st. serveStatic e cfg req res0 pathCache = (st, pathCache, None)
               \<and> calls st = []
               \<and> res_statusCode (res st) = 405
               \<and> getHeader (res st) ''Allow'' = Some (HStr ''GET, HEAD'')
               \<and> getHeader (res st) ''Content-Length'' = Some (HStr ''0'')
               \<and> res_ended (res st)
               \<and> res_body (res st) = res_body res0))"
  using assms
  by (simp add: serveStatic_def Let_def getHeader_setHeader setHeader_fields
      end_response_fields toLowerCase_names)

theorem method_gate_witness:
  "serveStatic (sample_env []) (sample_config True ''/var/www'')
      (sample_request ''POST'' ''/x'') fresh_response [] =
     (\<lparr>res = fresh_response, forwardError = False, calls = [Next None]\<rparr>, [], None)
   \<and> (\<exists>st. serveStatic (sample_env []) (sample_config False ''/var/www'')
               (sample_request ''POST'' ''/x'') fresh_response [] = (st, [], None)
          \<and> calls st = []
          \<and> res_statusCode (res st) = 405
          \<and> getHeader (res st) ''Allow'' = Some (HStr ''GET, HEAD'')
          \<and> getHeader (res st) ''Content-Length'' = Some (HStr ''0'')
          \<and> res_ended (res st)
          \<and> res_body (res st) = [])"
  using method_gate [where req = "sample_request ''POST'' ''/x''" and e = "sample_env []"
      and cfg = "sample_config True ''/var/www''" and ?res0.0 = fresh_response and pathCache = "[]"]
    method_gate [where req = "sample_request ''POST'' ''/x''" and e = "sample_env []"
      and cfg = "sample_config False ''/var/www''" and ?res0.0 = fresh_response and pathCache = "[]"]
  by (simp add: sample_request_simps sample_config_simps fresh_response_def)

section \<open>Negotiation of a precompressed variant\<close>





section \<open>Forwarding of engine errors\<close>

lemma serveStatic_stream:
  assumes "serveStatic e cfg req res0 c = (st0, c', Some strm)"
  shows "forwardError st0 = (\<not> fallthrough cfg)" and "calls st0 = [Pipe]" and "res st0 = res0"
  using assms
  by (auto simp: serveStatic_def Let_def split: if_splits prod.splits)

lemma forwardError_directory: "forwardError (onDirectory e cfg this st) = forwardError st"
  by (simp add: onDirectory_def createRedirectDirectoryListener_def
      createNotFoundDirectoryListener_def Let_def)

lemma forwardError_error: "forwardError (error e err st) = forwardError st"
  by (simp add: error_def)

lemma forwardError_emit_mono: "forwardError st \<Longrightarrow> forwardError (emit e cfg strm ev st)"
  by (cases ev) (simp_all add: forwardError_directory forwardError_error onFile_def)

lemma forwardError_emit_all_mono:
  "forwardError st \<Longrightarrow> forwardError (emit_all e cfg strm evs st)"
  unfolding emit_all_def
  by (induction evs arbitrary: st) (simp_all add: forwardError_emit_mono)

lemma emit_all_append:
  "emit_all e cfg strm (xs @ ys) st = emit_all e cfg strm ys (emit_all e cfg strm xs st)"
  by (simp add: emit_all_def)

lemma forwardError_emit_no_file:
  "EvFile \<noteq> ev \<Longrightarrow> forwardError (emit e cfg strm ev st) = forwardError st"
  by (cases ev) (simp_all add: forwardError_directory forwardError_error)

lemma forwardError_emit_all_no_file:
  "EvFile \<notin> set evs \<Longrightarrow> forwardError (emit_all e cfg strm evs st) = forwardError st"
  unfolding emit_all_def
  by (induction evs arbitrary: st) (simp_all add: forwardError_emit_no_file)

lemma forwardError_after_file:
  assumes "forwardError st = (\<not> fallthrough cfg)"
  shows "forwardError (emit_all e cfg strm (evs1 @ [EvFile] @ evs2) st)"
proof -
  let ?s1 = "emit_all e cfg strm evs1 st"
  have "forwardError (emit e cfg strm EvFile ?s1)"
  proof (cases "fallthrough cfg")
    case True
    then show ?thesis by (simp add: onFile_def)
  next
    case False
    with assms have "forwardError st" by simp
    then have "forwardError ?s1" by (rule forwardError_emit_all_mono)
    then show ?thesis by (rule forwardError_emit_mono)
  qed
  then have "forwardError (emit_all e cfg strm evs2 (emit e cfg strm EvFile ?s1))"
    by (rule forwardError_emit_all_mono)
  then show ?thesis by (simp add: emit_all_append emit_all_def)
qed

text \<open>
  C3. On a request that reached the engine, once a \<open>file\<close> notification has been emitted
  (after any notifications \<open>evs1\<close> and followed by any notifications \<open>evs2\<close>), an \<open>error\<close>
  notification calls \<open>next(err)\<close> with the error and does nothing else, whatever the
  \<open>fallthrough\<close> setting and the error's status code.
\<close>

theorem error_after_file_forwarded:
  assumes "serveStatic e cfg req res0 c = (st0, c', Some strm)"
    and "st = emit_all e cfg strm (evs1 @ [EvFile] @ evs2) st0"
  shows "emit e cfg strm (EvError err) st = st\<lparr>calls := calls st @ [Next (Some err)]\<rparr>"
proof -
  have "forwardError st0 = (\<not> fallthrough cfg)"
    using assms(1) by (rule serveStatic_stream(1))
  then have "forwardError st"
    unfolding assms(2) by (rule forwardError_after_file)
  then show ?thesis by (simp add: error_def)
qed

theorem error_after_file_forwarded_witness:
  "serveStatic (sample_env []) (sample_config True ''/var/www'')
     (sample_request ''GET'' ''/missing.txt'') fresh_response [] =
   (\<lparr>res = fresh_response, forwardError = False, calls = [Pipe]\<rparr>,
    [(''/var/www::/missing.txt'', ''/missing.txt'')],
    Some \<lparr>send_path = ''/missing.txt'', precompressed = None, encoding = None\<rparr>)
   \<and> emit (sample_env []) (sample_config True ''/var/www'')
       \<lparr>send_path = ''/missing.txt'', precompressed = None, encoding = None\<rparr>
       (EvError (sample_error (JNumber (Fin 404))))
       (emit_all (sample_env []) (sample_config True ''/var/www'')
          \<lparr>send_path = ''/missing.txt'', precompressed = None, encoding = None\<rparr> [EvFile]
          \<lparr>res = fresh_response, forwardError = False, calls = [Pipe]\<rparr>)
     = \<lparr>res = fresh_response, forwardError = True,
        calls = [Pipe, Next (Some (sample_error (JNumber (Fin 404))))]\<rparr>"
  using error_after_file_forwarded [where e = "sample_env []"
      and cfg = "sample_config True ''/var/www''"
      and req = "sample_request ''GET'' ''/missing.txt''" and ?res0.0 = fresh_response
      and c = "[]" and ?evs1.0 = "[]" and ?evs2.0 = "[]"
      and err = "sample_error (JNumber (Fin 404))"
      and ?st0.0 = "\<lparr>res = fresh_response, forwardError = False, calls = [Pipe]\<rparr>"
      and c' = "[(''/var/www::/missing.txt'', ''/missing.txt'')]"
      and strm = "\<lparr>send_path = ''/missing.txt'', precompressed = None, encoding = None\<rparr>"
      and st = "\<lparr>res = fresh_response, forwardError = True, calls = [Pipe]\<rparr>"]
  by (simp add: serveStatic_sample emit_all_def onFile_def sample_config_simps)

lemma js_lt_number: "js_lt s2n (JNumber (Fin n)) (Fin 500) = (n < 500)"
  by (simp add: js_lt_def)

lemma sample_error_simps: "err_statusCode (sample_error sc) = sc"
  by (simp add: sample_error_def)

text \<open>
  C1, as the code has it. On a request that reached the engine with \<open>fallthrough\<close> set
  and no \<open>file\<close> notification so far, an error whose status code is a number below 500
  (403 as much as 404) is suppressed: \<open>next()\<close> is called with no argument. An error
  whose status code is 500 or more is forwarded with \<open>next(err)\<close> in every state of the
  request, whatever the \<open>fallthrough\<close> setting.
\<close>

theorem client_errors_fall_through:
  assumes "serveStatic e cfg req res0 c = (st0, c', Some strm)"
    and "err_statusCode err = JNumber (Fin n)"
  shows "(fallthrough cfg \<and> EvFile \<notin> set evs \<and> n < 500 \<longrightarrow>
            emit e cfg strm (EvError err) (emit_all e cfg strm evs st0) =
              (emit_all e cfg strm evs st0)
                \<lparr>calls := calls (emit_all e cfg strm evs st0) @ [Next None]\<rparr>)
       \<and> (500 \<le> n \<longrightarrow>
            (\<forall>st. emit e cfg strm (EvError err) st = st\<lparr>calls := calls st @ [Next (Some err)]\<rparr>))"
proof (intro conjI impI allI)
  assume a: "fallthrough cfg \<and> EvFile \<notin> set evs \<and> n < 500"
  have "forwardError st0 = (\<not> fallthrough cfg)"
    using assms(1) by (rule serveStatic_stream(1))
  with a have "\<not> forwardError (emit_all e cfg strm evs st0)"
    by (simp add: forwardError_emit_all_no_file)
  with a assms(2) show "emit e cfg strm (EvError err) (emit_all e cfg strm evs st0) =
      (emit_all e cfg strm evs st0)\<lparr>calls := calls (emit_all e cfg strm evs st0) @ [Next None]\<rparr>"
    by (simp add: error_def js_lt_number)
next
  fix st
  assume "500 \<le> n"
  with assms(2) show "emit e cfg strm (EvError err) st = st\<lparr>calls := calls st @ [Next (Some err)]\<rparr>"
    by (simp add: error_def js_lt_number)
qed

theorem client_errors_fall_through_witness:
  "emit (sample_env []) (sample_config True ''/var/www'')
     \<lparr>send_path = ''/missing.txt'', precompressed = None, encoding = None\<rparr>
     (EvError (sample_error (JNumber (Fin 403))))
     \<lparr>res = fresh_response, forwardError = False, calls = [Pipe]\<rparr>
   = \<lparr>res = fresh_response, forwardError = False, calls = [Pipe, Next None]\<rparr>
   \<and> emit (sample_env []) (sample_config True ''/var/www'')
     \<lparr>send_path = ''/missing.txt'', precompressed = None, encoding = None\<rparr>
     (EvError (sample_error (JNumber (Fin 503))))
     \<lparr>res = fresh_response, forwardError = False, calls = [Pipe]\<rparr>
   = \<lparr>res = fresh_response, forwardError = False,
      calls = [Pipe, Next (Some (sample_error (JNumber (Fin 503))))]\<rparr>"
  using
    client_errors_fall_through [where e = "sample_env []"
      and cfg = "sample_config True ''/var/www''"
      and req = "sample_request ''GET'' ''/missing.txt''" and ?res0.0 = fresh_response
      and c = "[]" and evs = "[]" and n = 403
      and err = "sample_error (JNumber (Fin 403))"
      and ?st0.0 = "\<lparr>res = fresh_response, forwardError = False, calls = [Pipe]\<rparr>"
      and c' = "[(''/var/www::/missing.txt'', ''/missing.txt'')]"
      and strm = "\<lparr>send_path = ''/missing.txt'', precompressed = None, encoding = None\<rparr>"]
    client_errors_fall_through [where e = "sample_env []"
      and cfg = "sample_config True ''/var/www''"
      and req = "sample_request ''GET'' ''/missing.txt''" and ?res0.0 = fresh_response
      and c = "[]" and evs = "[]" and n = 503
      and err = "sample_error (JNumber (Fin 503))"
      and ?st0.0 = "\<lparr>res = fresh_response, forwardError = False, calls = [Pipe]\<rparr>"
      and c' = "[(''/var/www::/missing.txt'', ''/missing.txt'')]"
      and strm = "\<lparr>send_path = ''/missing.txt'', precompressed = None, encoding = None\<rparr>"]
  by (simp add: serveStatic_sample emit_all_def sample_config_simps sample_error_simps)

text \<open>
  C1 as stated fails: with \<open>fallthrough\<close> set and no \<open>file\<close> notification, an error
  with status 403 is not forwarded; \<open>next\<close> is called with no argument.
\<close>

theorem forbidden_error_suppressed:
  "emit (sample_env []) (sample_config True ''/var/www'')
     \<lparr>send_path = ''/missing.txt'', precompressed = None, encoding = None\<rparr>
     (EvError (sample_error (JNumber (Fin 403))))
     (fst (serveStatic (sample_env []) (sample_config True ''/var/www'')
        (sample_request ''GET'' ''/missing.txt'') fresh_response []))
   = \<lparr>res = fresh_response, forwardError = False, calls = [Pipe, Next None]\<rparr>"
  by (simp add: serveStatic_sample error_def js_lt_number sample_error_simps)

text \<open>
  C10, as the code has it. With \<open>fallthrough\<close> set and no \<open>file\<close> notification, an
  error is suppressed exactly when its \<open>statusCode\<close>, converted to a number, is below
  500. An absent (\<open>undefined\<close>) status code and \<open>NaN\<close> are forwarded; \<open>null\<close>, \<open>true\<close>
  and \<open>false\<close> convert to 0 or 1 and are suppressed; a string is judged by the number it
  converts to.
\<close>

theorem status_conversion_decides_forwarding:
  assumes "serveStatic e cfg req res0 c = (st0, c', Some strm)"
    and "fallthrough cfg" and "EvFile \<notin> set evs"
    and "st = emit_all e cfg strm evs st0"
  shows "emit e cfg strm (EvError err) st =
           st\<lparr>calls := calls st @
              [if js_lt (StringToNumber e) (err_statusCode err) (Fin 500)
               then Next None else Next (Some err)]\<rparr>
       \<and> \<not> js_lt (StringToNumber e) JUndefined (Fin 500)
       \<and> \<not> js_lt (StringToNumber e) (JNumber NaN) (Fin 500)
       \<and> js_lt (StringToNumber e) JNull (Fin 500)
       \<and> js_lt (StringToNumber e) (JBool b) (Fin 500)
       \<and> js_lt (StringToNumber e) (JString s) (Fin 500) = num_lt (StringToNumber e s) (Fin 500)"
proof -
  have "forwardError st0 = (\<not> fallthrough cfg)"
    using assms(1) by (rule serveStatic_stream(1))
  with assms(2,3,4) have "\<not> forwardError st"
    by (simp add: forwardError_emit_all_no_file)
  then have "emit e cfg strm (EvError err) st =
           st\<lparr>calls := calls st @
              [if js_lt (StringToNumber e) (err_statusCode err) (Fin 500)
               then Next None else Next (Some err)]\<rparr>"
    by (simp add: error_def)
  then show ?thesis by (simp add: js_lt_def)
qed

theorem status_conversion_decides_forwarding_witness:
  "emit (sample_env []) (sample_config True ''/var/www'')
     \<lparr>send_path = ''/missing.txt'', precompressed = None, encoding = None\<rparr>
     (EvError (sample_error JUndefined))
     \<lparr>res = fresh_response, forwardError = False, calls = [Pipe]\<rparr>
   = \<lparr>res = fresh_response, forwardError = False,
      calls = [Pipe, Next (Some (sample_error JUndefined))]\<rparr>
   \<and> emit (sample_env []) (sample_config True ''/var/www'')
     \<lparr>send_path = ''/missing.txt'', precompressed = None, encoding = None\<rparr>
     (EvError (sample_error (JBool True)))
     \<lparr>res = fresh_response, forwardError = False, calls = [Pipe]\<rparr>
   = \<lparr>res = fresh_response, forwardError = False, calls = [Pipe, Next None]\<rparr>"
  using
    status_conversion_decides_forwarding [where e = "sample_env []"
      and cfg = "sample_config True ''/var/www''"
      and req = "sample_request ''GET'' ''/missing.txt''" and ?res0.0 = fresh_response
      and c = "[]" and evs = "[]" and err = "sample_error JUndefined"
      and ?st0.0 = "\<lparr>res = fresh_response, forwardError = False, calls = [Pipe]\<rparr>"
      and st = "\<lparr>res = fresh_response, forwardError = False, calls = [Pipe]\<rparr>"
      and c' = "[(''/var/www::/missing.txt'', ''/missing.txt'')]"
      and strm = "\<lparr>send_path = ''/missing.txt'', precompressed = None, encoding = None\<rparr>"]
    status_conversion_decides_forwarding [where e = "sample_env []"
      and cfg = "sample_config True ''/var/www''"
      and req = "sample_request ''GET'' ''/missing.txt''" and ?res0.0 = fresh_response
      and c = "[]" and evs = "[]" and err = "sample_error (JBool True)"
      and ?st0.0 = "\<lparr>res = fresh_response, forwardError = False, calls = [Pipe]\<rparr>"
      and st = "\<lparr>res = fresh_response, forwardError = False, calls = [Pipe]\<rparr>"
      and c' = "[(''/var/www::/missing.txt'', ''/missing.txt'')]"
      and strm = "\<lparr>send_path = ''/missing.txt'', precompressed = None, encoding = None\<rparr>"]
  by (simp add: serveStatic_sample emit_all_def sample_config_simps sample_error_simps js_lt_def)

text \<open>
  C10 as stated fails: a status code \<open>null\<close> is not a number, and the error is suppressed.
\<close>

theorem null_status_suppressed:
  "emit (sample_env []) (sample_config True ''/var/www'')
     \<lparr>send_path = ''/missing.txt'', precompressed = None, encoding = None\<rparr>
     (EvError (sample_error JNull))
     (fst (serveStatic (sample_env []) (sample_config True ''/var/www'')
        (sample_request ''GET'' ''/missing.txt'') fresh_response []))
   = \<lparr>res = fresh_response, forwardError = False, calls = [Pipe, Next None]\<rparr>"
  by (simp add: serveStatic_sample error_def js_lt_def sample_error_simps)

section \<open>Directory listeners\<close>

text \<open>The loop of \<open>collapseLeadingSlashes\<close> counts the leading slashes.\<close>

lemma collapse_loop_takeWhile:
  "i \<le> length str \<Longrightarrow>
     collapse_loop str i = i + length (takeWhile (\<lambda>c. c = CHR ''/'') (drop i str))"
proof (induction str i rule: collapse_loop.induct)
  case (1 str i)
  show ?case
  proof (cases "i < length str")
    case True
    then have d: "drop i str = str ! i # drop (Suc i) str"
      by (simp add: Cons_nth_drop_Suc)
    show ?thesis
    proof (cases "str ! i = CHR ''/''")
      case True
      with \<open>i < length str\<close> "1.IH" d show ?thesis
        by (subst collapse_loop.simps) simp
    next
      case False
      with \<open>i < length str\<close> d show ?thesis
        by (subst collapse_loop.simps) simp
    qed
  next
    case False
    with "1.prems" show ?thesis
      by (subst collapse_loop.simps) simp
  qed
qed

lemma collapseLeadingSlashes_dropWhile:
  "collapseLeadingSlashes str =
     (if prefix ''/'' str then ''/'' @ dropWhile (\<lambda>c. c = CHR ''/'') str else str)"
proof (cases str)
  case Nil
  then show ?thesis
    by (simp add: collapseLeadingSlashes_def collapse_loop_takeWhile)
next
  case (Cons c cs)
  show ?thesis
  proof (cases "c = CHR ''/''")
    case False
    with Cons show ?thesis
      by (simp add: collapseLeadingSlashes_def collapse_loop_takeWhile)
  next
    case True
    show ?thesis
    proof (cases "takeWhile (\<lambda>c. c = CHR ''/'') cs = []")
      case t: True
      then have "dropWhile (\<lambda>c. c = CHR ''/'') cs = cs"
        by (metis append_Nil takeWhile_dropWhile_id)
      with True Cons t show ?thesis
        by (simp add: collapseLeadingSlashes_def collapse_loop_takeWhile)
    next
      case f: False
      then have "0 < length (takeWhile (\<lambda>c. c = CHR ''/'') cs)" by simp
      with True Cons show ?thesis
        by (simp add: collapseLeadingSlashes_def collapse_loop_takeWhile dropWhile_eq_drop)
    qed
  qed
qed

lemma collapseLeadingSlashes_no_double: "\<not> prefix ''//'' (collapseLeadingSlashes str)"
proof (cases "prefix ''/'' str")
  case True
  let ?d = "dropWhile (\<lambda>c. c = CHR ''/'') str"
  have "\<not> prefix ''/'' ?d"
  proof (cases ?d)
    case Nil
    show ?thesis unfolding Nil by simp
  next
    case (Cons x xs)
    then have "?d \<noteq> []" by simp
    then have "\<not> (hd ?d = CHR ''/'')" by (rule hd_dropWhile)
    with Cons show ?thesis by simp
  qed
  with True show ?thesis
    by (simp add: collapseLeadingSlashes_dropWhile)
next
  case False
  have "prefix ''/'' ''//''" by simp
  then have "prefix ''//'' str \<Longrightarrow> prefix ''/'' str"
    by (rule prefix_order.trans)
  with False show ?thesis
    by (auto simp: collapseLeadingSlashes_dropWhile)
qed

lemma collapseLeadingSlashes_append_slash:
  assumes "p = [] \<or> last p \<noteq> CHR ''/''"
  shows "collapseLeadingSlashes (p @ ''/'') = collapseLeadingSlashes p @ ''/''"
    and "collapseLeadingSlashes p = [] \<or> last (collapseLeadingSlashes p) \<noteq> CHR ''/''"
proof -
  show "collapseLeadingSlashes (p @ ''/'') = collapseLeadingSlashes p @ ''/''"
  proof (cases "p = []")
    case True
    then show ?thesis by (simp add: collapseLeadingSlashes_dropWhile)
  next
    case False
    with assms have "last p \<in> set p" and "\<not> (last p = CHR ''/'')" by simp_all
    then have "dropWhile (\<lambda>c. c = CHR ''/'') (p @ ''/'') = dropWhile (\<lambda>c. c = CHR ''/'') p @ ''/''"
      by (rule dropWhile_append1)
    moreover from False have "prefix ''/'' (p @ ''/'') = prefix ''/'' p"
      by (cases p) simp_all
    ultimately show ?thesis by (simp add: collapseLeadingSlashes_dropWhile)
  qed
  show "collapseLeadingSlashes p = [] \<or> last (collapseLeadingSlashes p) \<noteq> CHR ''/''"
  proof (cases "p = []")
    case True
    then show ?thesis by (simp add: collapseLeadingSlashes_dropWhile)
  next
    case False
    with assms have l: "last p \<in> set p" "\<not> (last p = CHR ''/'')" by simp_all
    then have ne: "dropWhile (\<lambda>c. c = CHR ''/'') p \<noteq> []"
      by auto
    have "last (takeWhile (\<lambda>c. c = CHR ''/'') p @ dropWhile (\<lambda>c. c = CHR ''/'') p) =
          last (dropWhile (\<lambda>c. c = CHR ''/'') p)"
      using ne by (rule last_appendR)
    then have "last (dropWhile (\<lambda>c. c = CHR ''/'') p) = last p" by simp
    with l ne show ?thesis by (auto simp: collapseLeadingSlashes_dropWhile)
  qed
qed

text \<open>
  C7. Under the redirect policy, a \<open>directory\<close> notification on a stream whose
  \<open>hasTrailingSlash()\<close> holds calls the engine's \<open>error(404)\<close> and nothing else: the
  response is left as it was, so no redirect is written.
\<close>

theorem redirect_trailing_slash_not_found:
  assumes "redirect cfg" and "hasTrailingSlash this"
  shows "emit e cfg strm (EvDirectory this) st = st\<lparr>calls := calls st @ [StreamError 404]\<rparr>"
  using assms by (simp add: onDirectory_def createRedirectDirectoryListener_def)

theorem redirect_trailing_slash_not_found_witness:
  "emit (sample_env []) (sample_config True ''/var/www'')
     \<lparr>send_path = ''/docs/'', precompressed = None, encoding = None\<rparr>
     (EvDirectory \<lparr>this_req = sample_request ''GET'' ''/docs/'', hasTrailingSlash = True\<rparr>)
     \<lparr>res = fresh_response, forwardError = False, calls = [Pipe]\<rparr>
   = \<lparr>res = fresh_response, forwardError = False, calls = [Pipe, StreamError 404]\<rparr>"
  using redirect_trailing_slash_not_found [where cfg = "sample_config True ''/var/www''"
      and this = "\<lparr>this_req = sample_request ''GET'' ''/docs/'', hasTrailingSlash = True\<rparr>"
      and e = "sample_env []"
      and strm = "\<lparr>send_path = ''/docs/'', precompressed = None, encoding = None\<rparr>"
      and st = "\<lparr>res = fresh_response, forwardError = False, calls = [Pipe]\<rparr>"]
  by (simp add: sample_config_simps)

lemma createRedirect_redirects:
  assumes "\<not> hasTrailingSlash this"
  shows "createRedirectDirectoryListener e this st =
     (let target = (req_originalUrl (this_req this))
            \<lparr>url_path := None,
             url_pathname :=
               collapseLeadingSlashes (url_pathname (req_originalUrl (this_req this)) @ ''/'')\<rparr>;
          loc = encodeUrl e (url_format e target);
          doc = createHtmlDocument ''Redirecting'' (''Redirecting to '' @ escapeHtml e loc)
      in st\<lparr>res := end_response (Some doc)
            (setHeader ''Location'' (HStr loc)
              (setHeader ''X-Content-Type-Options'' (HStr ''nosniff'')
                (setHeader ''Content-Security-Policy'' (HStr csp_value)
                  (setHeader ''Content-Length'' (HNum (byteLength e doc))
                    (setHeader ''Content-Type'' (HStr ''text/html; charset=UTF-8'')
                      ((res st)\<lparr>res_statusCode := 301\<rparr>))))))\<rparr>)"
  using assms by (simp add: createRedirectDirectoryListener_def Let_def)

text \<open>
  C6. Under the redirect policy, a \<open>directory\<close> notification on a stream whose
  \<open>hasTrailingSlash()\<close> does not hold writes a 301 response. Its \<open>Location\<close> is the
  encoded, formatted original URL whose pathname \<open>p\<close> got one slash appended and its
  leading slashes collapsed: the new pathname never starts with two slashes, and when \<open>p\<close>
  does not end in a slash it ends in exactly one. The body is the HTML document below,
  naming the escaped location; \<open>Content-Type\<close> is \<open>text/html; charset=UTF-8\<close>,
  \<open>Content-Length\<close> the byte length of the body, \<open>Content-Security-Policy\<close> is
  \<open>default-src 'none'\<close> (\<open>CHR 0x27\<close> is the single quote) and \<open>X-Content-Type-Options\<close>
  is \<open>nosniff\<close>; \<open>next\<close> is not called.
\<close>

theorem redirect_listener_response:
  assumes "redirect cfg" and "\<not> hasTrailingSlash this"
  shows
    \<open>(let p = url_pathname (req_originalUrl (this_req this));
          target = (req_originalUrl (this_req this))
            \<lparr>url_path := None, url_pathname := collapseLeadingSlashes (p @ ''/'')\<rparr>;
          loc = encodeUrl e (url_format e target);
          doc = ''<!DOCTYPE html>\<newline><html lang="en">\<newline><head>\<newline><meta charset="utf-8">\<newline><title>Redirecting</title>\<newline></head>\<newline><body>\<newline><pre>Redirecting to ''
                @ escapeHtml e loc @ ''</pre>\<newline></body>\<newline></html>\<newline>'';
          st' = emit e cfg strm (EvDirectory this) st
      in calls st' = calls st
       \<and> res_statusCode (res st') = 301
       \<and> getHeader (res st') ''Location'' = Some (HStr loc)
       \<and> getHeader (res st') ''Content-Type'' = Some (HStr ''text/html; charset=UTF-8'')
       \<and> getHeader (res st') ''Content-Length'' = Some (HNum (byteLength e doc))
       \<and> getHeader (res st') ''Content-Security-Policy'' =
            Some (HStr (''default-src '' @ [CHR 0x27] @ ''none'' @ [CHR 0x27]))
       \<and> getHeader (res st') ''X-Content-Type-Options'' = Some (HStr ''nosniff'')
       \<and> res_ended (res st')
       \<and> res_body (res st') = res_body (res st) @ doc
       \<and> url_pathname target =
            (if prefix ''/'' p then ''/'' @ dropWhile (\<lambda>c. c = CHR ''/'') (p @ ''/'') else p @ ''/'')
       \<and> \<not> prefix ''//'' (url_pathname target)
       \<and> (p = [] \<or> last p \<noteq> CHR ''/'' \<longrightarrow>
            url_pathname target = collapseLeadingSlashes p @ ''/''
            \<and> (collapseLeadingSlashes p = [] \<or> last (collapseLeadingSlashes p) \<noteq> CHR ''/'')))\<close>
proof -
  let ?p = "url_pathname (req_originalUrl (this_req this))"
  have em: "emit e cfg strm (EvDirectory this) st = createRedirectDirectoryListener e this st"
    using assms(1) by (simp add: onDirectory_def)
  have shape: "collapseLeadingSlashes (?p @ ''/'') =
      (if prefix ''/'' ?p then ''/'' @ dropWhile (\<lambda>c. c = CHR ''/'') (?p @ ''/'') else ?p @ ''/'')"
    by (cases ?p) (simp_all add: collapseLeadingSlashes_dropWhile)
  have nd: "\<not> prefix ''//'' (collapseLeadingSlashes (?p @ ''/''))"
    by (rule collapseLeadingSlashes_no_double)
  have one: "?p = [] \<or> last ?p \<noteq> CHR ''/'' \<longrightarrow>
      collapseLeadingSlashes (?p @ ''/'') = collapseLeadingSlashes ?p @ ''/''
      \<and> (collapseLeadingSlashes ?p = [] \<or> last (collapseLeadingSlashes ?p) \<noteq> CHR ''/'')"
    using collapseLeadingSlashes_append_slash [of ?p] by blast
  show ?thesis
    unfolding Let_def em createRedirect_redirects [OF assms(2), unfolded Let_def]
    using shape nd one
    by (simp add: getHeader_setHeader setHeader_fields end_response_fields toLowerCase_names
        createHtmlDocument_def csp_value_def)
qed

lemma collapse_evil: "collapseLeadingSlashes ''//evil.com/'' = ''/evil.com/''"
  by (simp add: collapseLeadingSlashes_dropWhile)

theorem redirect_listener_response_witness:
  \<open>res_statusCode (res (emit (sample_env []) (sample_config True ''/var/www'')
       \<lparr>send_path = ''//evil.com'', precompressed = None, encoding = None\<rparr>
       (EvDirectory \<lparr>this_req = sample_request ''GET'' ''//evil.com'', hasTrailingSlash = False\<rparr>)
       \<lparr>res = fresh_response, forwardError = False, calls = [Pipe]\<rparr>)) = 301
   \<and> getHeader (res (emit (sample_env []) (sample_config True ''/var/www'')
       \<lparr>send_path = ''//evil.com'', precompressed = None, encoding = None\<rparr>
       (EvDirectory \<lparr>this_req = sample_request ''GET'' ''//evil.com'', hasTrailingSlash = False\<rparr>)
       \<lparr>res = fresh_response, forwardError = False, calls = [Pipe]\<rparr>)) ''Location''
     = Some (HStr ''/evil.com/'')
   \<and> getHeader (res (emit (sample_env []) (sample_config True ''/var/www'')
       \<lparr>send_path = ''//evil.com'', precompressed = None, encoding = None\<rparr>
       (EvDirectory \<lparr>this_req = sample_request ''GET'' ''//evil.com'', hasTrailingSlash = False\<rparr>)
       \<lparr>res = fresh_response, forwardError = False, calls = [Pipe]\<rparr>)) ''Content-Length''
     = Some (HNum 158)
   \<and> getHeader (res (emit (sample_env []) (sample_config True ''/var/www'')
       \<lparr>send_path = ''//evil.com'', precompressed = None, encoding = None\<rparr>
       (EvDirectory \<lparr>this_req = sample_request ''GET'' ''//evil.com'', hasTrailingSlash = False\<rparr>)
       \<lparr>res = fresh_response, forwardError = False, calls = [Pipe]\<rparr>)) ''Content-Security-Policy''
     = Some (HStr (''default-src '' @ [CHR 0x27] @ ''none'' @ [CHR 0x27]))
   \<and> res_body (res (emit (sample_env []) (sample_config True ''/var/www'')
       \<lparr>send_path = ''//evil.com'', precompressed = None, encoding = None\<rparr>
       (EvDirectory \<lparr>this_req = sample_request ''GET'' ''//evil.com'', hasTrailingSlash = False\<rparr>)
       \<lparr>res = fresh_response, forwardError = False, calls = [Pipe]\<rparr>))
     = ''<!DOCTYPE html>\<newline><html lang="en">\<newline><head>\<newline><meta charset="utf-8">\<newline><title>Redirecting</title>\<newline></head>\<newline><body>\<newline><pre>Redirecting to /evil.com/</pre>\<newline></body>\<newline></html>\<newline>''\<close>
  using redirect_listener_response [where cfg = "sample_config True ''/var/www''"
      and this = "\<lparr>this_req = sample_request ''GET'' ''//evil.com'', hasTrailingSlash = False\<rparr>"
      and e = "sample_env []"
      and strm = "\<lparr>send_path = ''//evil.com'', precompressed = None, encoding = None\<rparr>"
      and st = "\<lparr>res = fresh_response, forwardError = False, calls = [Pipe]\<rparr>"]
  by (simp add: Let_def sample_config_simps sample_request_def sample_url_def sample_env_simps
      collapse_evil fresh_response_def)

section \<open>The headers listener\<close>











section \<open>The path resolver cache\<close>

lemma Map_delete_length: "length (Map_delete m k) \<le> length m"
  by (simp add: Map_delete_def)

lemma Map_delete_absent: "map_of (Map_delete m k) k = None"
  by (induction m) (auto simp: Map_delete_def)

lemma Map_delete_present_length:
  "map_of m k \<noteq> None \<Longrightarrow> length (Map_delete m k) < length m"
proof (induction m)
  case Nil
  then show ?case by simp
next
  case (Cons a m)
  show ?case
  proof (cases "fst a = k")
    case True
    have "length (filter (\<lambda>e. fst e \<noteq> k) m) \<le> length m" by (rule length_filter_le)
    with True show ?thesis by (simp add: Map_delete_def less_Suc_eq_le)
  next
    case False
    with Cons.prems have "map_of m k \<noteq> None" by (cases a) auto
    then have "length (Map_delete m k) < length m" by (rule Cons.IH)
    with False show ?thesis by (simp add: Map_delete_def)
  qed
qed

lemma Map_set_absent: "map_of m k = None \<Longrightarrow> Map_set m k v = m @ [(k, v)]"
  by (simp add: Map_set_def Map_has_def Map_get_def)

text \<open>A hit moves the entry to the most recent position and keeps the order of the others.\<close>

lemma getCachedPath_hit:
  assumes "map_of c (r @ ''::'' @ p) = Some v"
  shows "getCachedPath p r c = (v, Map_delete c (r @ ''::'' @ p) @ [(r @ ''::'' @ p, v)])"
  using assms
  by (simp add: getCachedPath_def Let_def Map_has_def Map_get_def Map_set_absent Map_delete_absent)

text \<open>A miss below capacity appends the new entry.\<close>

lemma getCachedPath_miss:
  assumes "map_of c (r @ ''::'' @ p) = None" and "length c < MAX_CACHE_SIZE"
  shows "getCachedPath p r c = (p, c @ [(r @ ''::'' @ p, p)])"
  using assms
  by (simp add: getCachedPath_def Let_def Map_has_def Map_get_def Map_set_absent Map_size_def)

text \<open>A miss at capacity evicts the oldest entry, the first of the list.\<close>

lemma getCachedPath_miss_full:
  assumes "map_of c (r @ ''::'' @ p) = None" and "MAX_CACHE_SIZE \<le> length c"
    and "distinct (map fst c)"
  shows "getCachedPath p r c = (p, tl c @ [(r @ ''::'' @ p, p)])"
proof (cases c)
  case Nil
  with assms(2) show ?thesis by (simp add: MAX_CACHE_SIZE_def)
next
  case (Cons a m)
  with assms(3) have "fst a \<notin> fst ` set m" by simp
  then have "filter (\<lambda>e. fst e \<noteq> fst a) m = m"
    unfolding filter_id_conv by (metis imageI)
  then have d: "Map_delete c (fst a) = m"
    using Cons by (simp add: Map_delete_def)
  from assms(1) Cons have "map_of m (r @ ''::'' @ p) = None"
    by (cases a) (auto split: if_splits)
  with assms(1,2) Cons d show ?thesis
    by (simp add: getCachedPath_def Let_def Map_has_def Map_get_def Map_set_absent
        Map_size_def Map_first_key_def)
qed

text \<open>The cache never grows beyond its bound.\<close>

lemma getCachedPath_size:
  assumes "Map_size c \<le> MAX_CACHE_SIZE"
  shows "Map_size (snd (getCachedPath p r c)) \<le> MAX_CACHE_SIZE"
proof (cases "map_of c (r @ ''::'' @ p)")
  case (Some v)
  then have "length (Map_delete c (r @ ''::'' @ p)) < length c"
    by (simp add: Map_delete_present_length)
  with assms Some show ?thesis
    by (simp add: getCachedPath_hit Map_size_def)
next
  case None
  show ?thesis
  proof (cases "length c < MAX_CACHE_SIZE")
    case True
    with None show ?thesis by (simp add: getCachedPath_miss Map_size_def)
  next
    case False
    with assms have full: "length c = MAX_CACHE_SIZE" by (simp add: Map_size_def)
    then obtain a m where c: "c = a # m"
      by (cases c) (simp_all add: MAX_CACHE_SIZE_def)
    have "length (Map_delete c (fst a)) < length c"
      using c by (intro Map_delete_present_length) (cases a, simp)
    moreover have "map_of (Map_delete c (fst a)) (r @ ''::'' @ p) = None"
      using None by (induction c) (auto simp: Map_delete_def split: if_splits)
    ultimately show ?thesis
      using None full c
      by (simp add: getCachedPath_def Let_def Map_has_def Map_get_def Map_set_absent
          Map_size_def Map_first_key_def)
  qed
qed

lemma Map_delete_distinct: "distinct (map fst c) \<Longrightarrow> distinct (map fst (Map_delete c k))"
  by (simp add: Map_delete_def distinct_map_filter)

lemma Map_delete_map_of_None: "map_of c k = None \<Longrightarrow> map_of (Map_delete c k') k = None"
  by (induction c) (auto simp: Map_delete_def split: if_splits)

lemma getCachedPath_miss_shape:
  assumes "map_of c (r @ ''::'' @ p) = None"
  shows "\<exists>c1. set c1 \<subseteq> set c \<and> getCachedPath p r c = (p, c1 @ [(r @ ''::'' @ p, p)])"
proof (cases "MAX_CACHE_SIZE \<le> Map_size c")
  case False
  with assms have "getCachedPath p r c = (p, c @ [(r @ ''::'' @ p, p)])"
    by (simp add: getCachedPath_miss Map_size_def)
  then show ?thesis by blast
next
  case True
  show ?thesis
  proof (cases "Map_first_key c")
    case None
    with assms True have "getCachedPath p r c = (p, c @ [(r @ ''::'' @ p, p)])"
      by (simp add: getCachedPath_def Let_def Map_has_def Map_get_def Map_set_absent)
    then show ?thesis by blast
  next
    case (Some k')
    have "map_of (Map_delete c k') (r @ ''::'' @ p) = None"
      using assms by (rule Map_delete_map_of_None)
    with assms True Some
    have "getCachedPath p r c = (p, Map_delete c k' @ [(r @ ''::'' @ p, p)])"
      by (simp add: getCachedPath_def Let_def Map_has_def Map_get_def Map_set_absent)
    moreover have "set (Map_delete c k') \<subseteq> set c"
      by (auto simp: Map_delete_def)
    ultimately show ?thesis by blast
  qed
qed

text \<open>
  While every entry was stored for one root \<open>r\<close>, a call for \<open>r\<close> returns the pathname
  it is given.
\<close>

lemma getCachedPath_single_root:
  assumes "\<forall>(k, v) \<in> set c. k = r @ ''::'' @ v"
  shows "fst (getCachedPath p r c) = p"
    and "\<forall>(k, v) \<in> set (snd (getCachedPath p r c)). k = r @ ''::'' @ v"
proof -
  show "fst (getCachedPath p r c) = p"
  proof (cases "map_of c (r @ ''::'' @ p)")
    case None
    then show ?thesis
      by (simp add: getCachedPath_def Let_def Map_has_def Map_get_def)
  next
    case (Some v)
    then have "(r @ ''::'' @ p, v) \<in> set c" by (rule map_of_SomeD)
    with assms have "v = p" by auto
    with Some show ?thesis by (simp add: getCachedPath_hit)
  qed
  show "\<forall>(k, v) \<in> set (snd (getCachedPath p r c)). k = r @ ''::'' @ v"
  proof (cases "map_of c (r @ ''::'' @ p)")
    case (Some v)
    then have "(r @ ''::'' @ p, v) \<in> set c" by (rule map_of_SomeD)
    with assms have "v = p" by auto
    with Some assms show ?thesis by (auto simp: getCachedPath_hit Map_delete_def)
  next
    case None
    then obtain c1 where "set c1 \<subseteq> set c"
        and "getCachedPath p r c = (p, c1 @ [(r @ ''::'' @ p, p)])"
      using getCachedPath_miss_shape by blast
    with assms show ?thesis by auto
  qed
qed

lemma serveStatic_sample_path:
  assumes "p \<noteq> ''/''"
  shows "serveStatic (sample_env []) (sample_config True r) (sample_request ''GET'' p)
     fresh_response c =
   (\<lparr>res = fresh_response, forwardError = False, calls = [Pipe]\<rparr>,
    snd (getCachedPath p r c),
    Some \<lparr>send_path = fst (getCachedPath p r c), precompressed = None, encoding = None\<rparr>)"
  using assms
  by (simp add: serveStatic_def sample_config_simps sample_request_simps
      negotiate_def Let_def sample_env_simps split: prod.splits)

text \<open>
  C4. The cache is meant to change nothing but latency. The key \<open>root + '::' + pathname\<close>
  does not determine the root and the pathname: with the roots \<open>/srv/a::/b\<close> and \<open>/srv/a\<close>
  served in one process, a request for \<open>/x\<close> under the first stores the key
  \<open>/srv/a::/b::/x\<close>, and a later request for \<open>/b::/x\<close> under the second finds it and
  hands \<open>/x\<close> to the engine; with an empty cache the same request hands over \<open>/b::/x\<close>.
\<close>

theorem cache_key_collision_changes_path:
  "serveStatic (sample_env []) (sample_config True ''/srv/a::/b'') (sample_request ''GET'' ''/x'')
     fresh_response [] =
     (\<lparr>res = fresh_response, forwardError = False, calls = [Pipe]\<rparr>,
      [(''/srv/a::/b::/x'', ''/x'')],
      Some \<lparr>send_path = ''/x'', precompressed = None, encoding = None\<rparr>)
   \<and> serveStatic (sample_env []) (sample_config True ''/srv/a'') (sample_request ''GET'' ''/b::/x'')
     fresh_response [(''/srv/a::/b::/x'', ''/x'')] =
     (\<lparr>res = fresh_response, forwardError = False, calls = [Pipe]\<rparr>,
      [(''/srv/a::/b::/x'', ''/x'')],
      Some \<lparr>send_path = ''/x'', precompressed = None, encoding = None\<rparr>)
   \<and> serveStatic (sample_env []) (sample_config True ''/srv/a'') (sample_request ''GET'' ''/b::/x'')
     fresh_response [] =
     (\<lparr>res = fresh_response, forwardError = False, calls = [Pipe]\<rparr>,
      [(''/srv/a::/b::/x'', ''/b::/x'')],
      Some \<lparr>send_path = ''/b::/x'', precompressed = None, encoding = None\<rparr>)"
  by (simp add: serveStatic_sample_path getCachedPath_def Let_def Map_has_def Map_get_def
      Map_set_def Map_delete_def Map_size_def MAX_CACHE_SIZE_def)

text \<open>
  C5. The bound, the refresh on a hit and the eviction of the oldest entry hold (lemmas
  above). The lookup guarantee does not: the value stored for root \<open>/srv/a::/b\<close> and
  pathname \<open>/x\<close> is returned for root \<open>/srv/a\<close> and pathname \<open>/b::/x\<close>.
\<close>

theorem cache_lookup_crosses_roots:
  "getCachedPath ''/x'' ''/srv/a::/b'' [] = (''/x'', [(''/srv/a::/b::/x'', ''/x'')])
   \<and> getCachedPath ''/b::/x'' ''/srv/a'' [(''/srv/a::/b::/x'', ''/x'')] =
       (''/x'', [(''/srv/a::/b::/x'', ''/x'')])"
  by (simp add: getCachedPath_def Let_def Map_has_def Map_get_def Map_set_def Map_delete_def
      Map_size_def MAX_CACHE_SIZE_def)

end
